theory Spec2Isabelle
  imports Main
begin

section \<open>Strings, exceptions and the opaque artifacts\<close>

text \<open>
  A Python \<open>str\<close> is a sequence of Unicode code points, and \<open>==\<close>, dictionary lookup and
  \<open>strip\<close> all work on code points. A string is therefore a list of code points; \<open>ascii\<close>
  reads the code points of a literal whose characters are all ASCII.
\<close>

type_synonym pystr = "nat list"

definition ascii :: "string \<Rightarrow> pystr" where
  "ascii s = map of_char s"

text \<open>
  \<open>str.isspace\<close> on one code point: the code points Python counts as whitespace, which are
  the ones \<open>str.strip()\<close> with no argument removes from both ends.
\<close>

definition isspace :: "nat \<Rightarrow> bool" where
  "isspace c \<longleftrightarrow>
     (0x09 \<le> c \<and> c \<le> 0x0D) \<or> (0x1C \<le> c \<and> c \<le> 0x20) \<or> c = 0x85 \<or> c = 0xA0 \<or>
     c = 0x1680 \<or> (0x2000 \<le> c \<and> c \<le> 0x200A) \<or> c = 0x2028 \<or> c = 0x2029 \<or>
     c = 0x202F \<or> c = 0x205F \<or> c = 0x3000"

definition strip :: "pystr \<Rightarrow> pystr" where
  "strip s = rev (dropWhile isspace (rev (dropWhile isspace s)))"

text \<open>
  An exception is a value. \<open>load_resources\<close> tells \<open>FileNotFoundError\<close> from every other
  \<open>Exception\<close>; each carries the text \<open>str(e)\<close> that an f-string prints. Only instances of
  \<open>Exception\<close> are modelled: these are what \<open>except Exception\<close> catches.
\<close>

datatype pyexc = FileNotFoundError pystr | OtherException pystr

fun str_exc :: "pyexc \<Rightarrow> pystr" where
  "str_exc (FileNotFoundError s) = s"
| "str_exc (OtherException s) = s"

text \<open>
  The two pickled artifacts are opaque. The vectorizer's \<open>transform\<close> takes a batch (a list
  of texts) and the model's \<open>predict\<close> takes what \<open>transform\<close> returned (of some type \<open>'v\<close>)
  and gives one label per row; either call returns or raises. Both are functions: calling
  an artifact does not change it.

  What \<open>predict\<close> returns is a sequence object of a type the script does not fix: \<open>labels\<close>
  are its elements, and \<open>index_error\<close> is the exception that indexing it out of range
  raises (a list and an array word their \<open>IndexError\<close> differently).
\<close>

datatype prediction = Prediction (labels: "pystr list") (index_error: pyexc)

type_synonym 'v vectorizer_t = "pystr list \<Rightarrow> pyexc + 'v"
type_synonym 'v model_t = "'v \<Rightarrow> pyexc + prediction"

text \<open>
  What the script does that can be observed: the calls into the artifacts, with their
  arguments, and the Streamlit elements it shows, in the order they happen. \<open>st_stop\<close> ends
  the run of the script. The page layout (title, text area, button, footer) is left out, and
  a call that shows an element is taken to return.
\<close>

datatype 'v event =
    vectorizer_transform "pystr list"
  | model_predict 'v
  | st_warning pystr
  | st_success pystr
  | st_markdown pystr
  | st_info pystr
  | st_error pystr
  | st_stop

fun is_call :: "'v event \<Rightarrow> bool" where
  "is_call (vectorizer_transform _) = True"
| "is_call (model_predict _) = True"
| "is_call _ = False"

section \<open>Loading the model and the vectorizer\<close>

text \<open>
  \<open>pickle.load(open(name, "rb"))\<close> for the two file names of the script: each either raises
  or gives the unpickled object.
\<close>

record 'v files =
  language_model_pkl :: "pyexc + 'v model_t"
  vectorizer_pkl :: "pyexc + 'v vectorizer_t"

text \<open>The two \<open>except\<close> clauses of \<open>load_resources\<close>: the message shown, then \<open>st.stop()\<close>.\<close>

fun load_error :: "pyexc \<Rightarrow> pystr" where
  "load_error (FileNotFoundError _) =
     [0x1F6A8] @ ascii '' *Error:* Model or Vectorizer file not found. Please ensure language_model.pkl and vectorizer.pkl are in the correct directory.''"
| "load_error e = [0x1F6A8] @ ascii '' *Error loading resources:* '' @ str_exc e"

definition load_resources :: "'v files \<Rightarrow> 'v event list + ('v model_t \<times> 'v vectorizer_t)" where
  "load_resources fs =
     (case language_model_pkl fs of
        Inl e \<Rightarrow> Inl [st_error (load_error e), st_stop]
      | Inr model \<Rightarrow>
          (case vectorizer_pkl fs of
             Inl e \<Rightarrow> Inl [st_error (load_error e), st_stop]
           | Inr vectorizer \<Rightarrow> Inr (model, vectorizer)))"

text \<open>
  \<open>@st.cache_resource\<close>: the pair a successful call returned is kept for the later runs of the
  script and returned without loading again; a call that stopped stores nothing.
\<close>

type_synonym 'v cache = "('v model_t \<times> 'v vectorizer_t) option"

definition cached_load_resources ::
    "'v files \<Rightarrow> 'v cache \<Rightarrow> 'v cache \<times> ('v event list + ('v model_t \<times> 'v vectorizer_t))" where
  "cached_load_resources fs c =
     (case c of
        Some r \<Rightarrow> (c, Inr r)
      | None \<Rightarrow>
          (case load_resources fs of
             Inl evs \<Rightarrow> (None, Inl evs)
           | Inr r \<Rightarrow> (Some r, Inr r)))"

section \<open>The reply table\<close>

text \<open>
  The dictionary literal bound to \<open>responses\<close>, in the order it is written. \<open>dict.get\<close> with a
  default is \<open>dict_get\<close>; no key is written twice in the literal, so the first pair found is
  the only one.
\<close>

definition responses_literal :: "(pystr \<times> pystr) list" where
  "responses_literal =
    [
      (ascii ''English'',
        ascii ''Hello! How can I help you?''),
      (ascii ''Hindi'',
        [0x928, 0x92E, 0x938, 0x94D, 0x924, 0x947] @ ascii ''! '' @ [0x92E, 0x948, 0x902] @ ascii '' '' @ [0x906, 0x92A, 0x915, 0x940] @ ascii '' '' @ [0x915, 0x948, 0x938, 0x947] @ ascii '' '' @ [0x92E, 0x926, 0x926] @ ascii '' '' @ [0x915, 0x930] @ ascii '' '' @ [0x938, 0x915, 0x924, 0x93E] @ ascii '' '' @ [0x939, 0x942, 0x901] @ ascii ''?''),
      (ascii ''French'',
        ascii ''Bonjour ! Comment puis-je vous aider ?''),
      (ascii ''Spanish'',
        [0xA1] @ ascii ''Hola! '' @ [0xBF] @ ascii ''C'' @ [0xF3] @ ascii ''mo puedo ayudarte?''),
      (ascii ''German'',
        ascii ''Hallo! Wie kann ich Ihnen helfen?''),
      (ascii ''Arabic'',
        [0x645, 0x631, 0x62D, 0x628, 0x627, 0x64B] @ ascii ''! '' @ [0x643, 0x64A, 0x641] @ ascii '' '' @ [0x64A, 0x645, 0x643, 0x646, 0x646, 0x64A] @ ascii '' '' @ [0x645, 0x633, 0x627, 0x639, 0x62F, 0x62A, 0x643, 0x61F]),
      (ascii ''Russian'',
        [0x417, 0x434, 0x440, 0x430, 0x432, 0x441, 0x442, 0x432, 0x443, 0x439, 0x442, 0x435] @ ascii ''! '' @ [0x427, 0x435, 0x43C] @ ascii '' '' @ [0x43C, 0x43E, 0x433, 0x443] @ ascii '' '' @ [0x43F, 0x43E, 0x43C, 0x43E, 0x447, 0x44C] @ ascii ''?''),
      (ascii ''Chinese'',
        [0x4F60, 0x597D, 0xFF01, 0x6211, 0x53EF, 0x4EE5, 0x5E2E, 0x4F60, 0x4EC0, 0x4E48, 0xFF1F]),
      (ascii ''Japanese'',
        [0x3053, 0x3093, 0x306B, 0x3061, 0x306F, 0xFF01, 0x3069, 0x306E, 0x3088, 0x3046, 0x306B, 0x304A, 0x624B, 0x4F1D, 0x3044, 0x3067, 0x304D, 0x307E, 0x3059, 0x304B, 0xFF1F]),
      (ascii ''Korean'',
        [0xC548, 0xB155, 0xD558, 0xC138, 0xC694] @ ascii ''! '' @ [0xC5B4, 0xB5BB, 0xAC8C] @ ascii '' '' @ [0xB3C4, 0xC640, 0xB4DC, 0xB9B4, 0xAE4C, 0xC694] @ ascii ''?''),
      (ascii ''Portuguese'',
        ascii ''Ol'' @ [0xE1] @ ascii ''! Como posso ajudar?''),
      (ascii ''Italian'',
        ascii ''Ciao! Come posso aiutarti?''),
      (ascii ''Turkish'',
        ascii ''Merhaba! Size nas'' @ [0x131] @ ascii ''l yard'' @ [0x131] @ ascii ''mc'' @ [0x131] @ ascii '' olabilirim?''),
      (ascii ''Tamil'',
        [0xBB5, 0xBA3, 0xB95, 0xBCD, 0xB95, 0xBAE, 0xBCD] @ ascii ''! '' @ [0xBA8, 0xBBE, 0xBA9, 0xBCD] @ ascii '' '' @ [0xB89, 0xB99, 0xBCD, 0xB95, 0xBB3, 0xBC1, 0xB95, 0xBCD, 0xB95, 0xBC1] @ ascii '' '' @ [0xB8E, 0xBAA, 0xBCD, 0xBAA, 0xB9F, 0xBBF] @ ascii '' '' @ [0xB89, 0xBA4, 0xBB5, 0xBB2, 0xBBE, 0xBAE, 0xBCD] @ ascii ''?''),
      (ascii ''Urdu'',
        [0x627, 0x644, 0x633, 0x644, 0x627, 0x645] @ ascii '' '' @ [0x639, 0x644, 0x6CC, 0x6A9, 0x645] @ ascii ''! '' @ [0x645, 0x6CC, 0x6BA] @ ascii '' '' @ [0x622, 0x67E] @ ascii '' '' @ [0x6A9, 0x6CC] @ ascii '' '' @ [0x6A9, 0x6CC, 0x633, 0x6D2] @ ascii '' '' @ [0x645, 0x62F, 0x62F] @ ascii '' '' @ [0x6A9, 0x631] @ ascii '' '' @ [0x633, 0x6A9, 0x62A, 0x627] @ ascii '' '' @ [0x6C1, 0x648, 0x6BA, 0x61F]),
      (ascii ''Thai'',
        [0xE2A, 0xE27, 0xE31, 0xE2A, 0xE14, 0xE35] @ ascii ''! '' @ [0xE09, 0xE31, 0xE19, 0xE0A, 0xE48, 0xE27, 0xE22, 0xE04, 0xE38, 0xE13, 0xE44, 0xE14, 0xE49, 0xE2D, 0xE22, 0xE48, 0xE32, 0xE07, 0xE44, 0xE23] @ ascii ''?''),
      (ascii ''Dutch'',
        ascii ''Hallo! Hoe kan ik je helpen?''),
      (ascii ''Estonian'',
        ascii ''Tere! Kuidas ma saan aidata?''),
      (ascii ''Romanian'',
        ascii ''Salut! Cum te pot ajuta?''),
      (ascii ''Persian'',
        [0x633, 0x644, 0x627, 0x645] @ ascii ''! '' @ [0x686, 0x6AF, 0x648, 0x646, 0x647] @ ascii '' '' @ [0x645, 0x6CC, 0x200C, 0x62A, 0x648, 0x627, 0x646, 0x645] @ ascii '' '' @ [0x6A9, 0x645, 0x6A9] @ ascii '' '' @ [0x6A9, 0x646, 0x645, 0x61F]),
      (ascii ''Indonesian'',
        ascii ''Halo! Bagaimana saya bisa membantu?''),
      (ascii ''Latin'',
        ascii ''Salve! Quomodo te adiuvare possum?'')
    ]"

definition dict_get :: "(pystr \<times> pystr) list \<Rightarrow> pystr \<Rightarrow> pystr \<Rightarrow> pystr" where
  "dict_get d k dflt = (case map_of d k of Some v \<Rightarrow> v | None \<Rightarrow> dflt)"

section \<open>The button handler\<close>

text \<open>
  The variables of the script that the handler reads or assigns. A variable that is not
  bound yet is \<open>None\<close>.
\<close>

record 'v globals =
  model :: "'v model_t"
  vectorizer :: "'v vectorizer_t"
  responses :: "(pystr \<times> pystr) list"
  user_input :: pystr
  text_vector :: "'v option"
  predicted_language :: "pystr option"
  reply :: "pystr option"

text \<open>What each branch of the handler shows.\<close>

definition empty_ui :: "'v event list" where
  "empty_ui = [st_warning (ascii ''Please enter some text in the message box above.'')]"

definition detected_ui :: "pystr \<Rightarrow> pystr \<Rightarrow> 'v event list" where
  "detected_ui lang r =
     [st_success ([0x2714, 0xFE0F] @ ascii '' Language Detected: *'' @ lang @ ascii ''*''),
      st_markdown (ascii ''### '' @ [0x1F916] @ ascii '' Chatbot Reply''),
      st_info r]"

definition failure_ui :: "pyexc \<Rightarrow> 'v event list" where
  "failure_ui e = [st_error (ascii ''An error occurred during prediction: '' @ str_exc e)]"

definition fallback :: pystr where
  "fallback = ascii ''Sorry, I don'' @ [0x27] @ ascii ''t have a canned response for this language yet.''"

text \<open>
  The body of \<open>if st.session_state.get('detect_button')\<close>: the variables after it and the
  events, in order. An exception raised inside \<open>try\<close> leaves the assignments made before it.
  In \<open>model.predict(text_vector)[0]\<close>, indexing a prediction with no element raises the
  prediction's own \<open>index_error\<close>, inside the \<open>try\<close>.
\<close>

definition detect_button_handler :: "'v globals \<Rightarrow> 'v globals \<times> 'v event list" where
  "detect_button_handler g =
     (if strip (user_input g) = [] then (g, empty_ui)
      else
        (case vectorizer g [user_input g] of
           Inl e \<Rightarrow> (g, [vectorizer_transform [user_input g]] @ failure_ui e)
         | Inr tv \<Rightarrow>
             (let g1 = g\<lparr>text_vector := Some tv\<rparr>;
                  calls = [vectorizer_transform [user_input g], model_predict tv]
              in case model g1 tv of
                   Inl e \<Rightarrow> (g1, calls @ failure_ui e)
                 | Inr p \<Rightarrow>
                     (case labels p of
                        [] \<Rightarrow> (g1, calls @ failure_ui (index_error p))
                      | lang # _ \<Rightarrow>
                          (let g2 = g1\<lparr>predicted_language := Some lang\<rparr>;
                               r = dict_get (responses g2) lang fallback;
                               g3 = g2\<lparr>reply := Some r\<rparr>
                           in (g3, calls @ detected_ui lang r))))))"

definition logic_execution :: "bool \<Rightarrow> 'v globals \<Rightarrow> 'v globals \<times> 'v event list" where
  "logic_execution detect_button g =
     (if detect_button then detect_button_handler g else (g, []))"

section \<open>One run of the script\<close>

text \<open>
  Streamlit runs the script from the top at every interaction, with fresh variables; only
  the resource cache lasts from one run to the next. \<open>globals_at_logic\<close> is the state of
  the variables when the run reaches the logic block.
\<close>

definition globals_at_logic :: "'v model_t \<Rightarrow> 'v vectorizer_t \<Rightarrow> pystr \<Rightarrow> 'v globals" where
  "globals_at_logic m v text =
     \<lparr>model = m, vectorizer = v, responses = responses_literal, user_input = text,
      text_vector = None, predicted_language = None, reply = None\<rparr>"

definition script :: "'v files \<Rightarrow> 'v cache \<Rightarrow> bool \<Rightarrow> pystr \<Rightarrow> 'v cache \<times> 'v event list" where
  "script fs c detect_button text =
     (case cached_load_resources fs c of
        (c', Inl evs) \<Rightarrow> (c', evs)
      | (c', Inr (m, v)) \<Rightarrow>
          (c', snd (logic_execution detect_button (globals_at_logic m v text))))"

section \<open>Observers and sample artifacts\<close>

text \<open>\<open>is_transform\<close> picks the calls of the vectorizer out of a trace.\<close>

fun is_transform :: "'v event \<Rightarrow> bool" where
  "is_transform (vectorizer_transform _) = True"
| "is_transform _ = False"

text \<open>
  Stand-ins for the pickled artifacts, used to run the script on concrete inputs: a
  vectorizer whose feature value is the number of rows of the batch, a vectorizer whose
  feature value is the number of code points of the batch (so it tells a text from the
  stripped text), a model that answers one fixed label per row, as an array does, and a model
  that raises.
\<close>

definition row_count_vectorizer :: "nat vectorizer_t" where
  "row_count_vectorizer batch = Inr (length batch)"

definition code_point_count_vectorizer :: "nat vectorizer_t" where
  "code_point_count_vectorizer batch = Inr (sum_list (map length batch))"

definition constant_model :: "pystr \<Rightarrow> nat model_t" where
  "constant_model lang rows =
     Inr (Prediction (replicate rows lang)
            (OtherException (ascii ''index 0 is out of bounds for axis 0 with size 0'')))"

definition raising_model :: "nat model_t" where
  "raising_model rows = Inl (OtherException (ascii ''X has 1 features, but the model is expecting 2''))"

definition bonjour :: pystr where
  "bonjour = ascii ''Bonjour, comment '' @ [0xE7] @ ascii ''a va?''"

definition not_found :: "string \<Rightarrow> pyexc" where
  "not_found name =
     FileNotFoundError
       (ascii ''[Errno 2] No such file or directory: '' @ [0x27] @ ascii name @ [0x27])"

section \<open>The branches of the handler\<close>

lemma handler_empty:
  "strip (user_input g) = [] \<Longrightarrow> detect_button_handler g = (g, empty_ui)"
  by (simp add: detect_button_handler_def)

lemma handler_transform_raises:
  "strip (user_input g) \<noteq> [] \<Longrightarrow> vectorizer g [user_input g] = Inl e \<Longrightarrow>
   detect_button_handler g = (g, [vectorizer_transform [user_input g]] @ failure_ui e)"
  by (simp add: detect_button_handler_def)

lemma handler_predict_raises:
  "strip (user_input g) \<noteq> [] \<Longrightarrow> vectorizer g [user_input g] = Inr tv \<Longrightarrow>
   model g tv = Inl e \<Longrightarrow>
   detect_button_handler g =
     (g\<lparr>text_vector := Some tv\<rparr>,
      [vectorizer_transform [user_input g], model_predict tv] @ failure_ui e)"
  by (simp add: detect_button_handler_def)

lemma handler_predict_nothing:
  "strip (user_input g) \<noteq> [] \<Longrightarrow> vectorizer g [user_input g] = Inr tv \<Longrightarrow>
   model g tv = Inr p \<Longrightarrow> labels p = [] \<Longrightarrow>
   detect_button_handler g =
     (g\<lparr>text_vector := Some tv\<rparr>,
      [vectorizer_transform [user_input g], model_predict tv] @ failure_ui (index_error p))"
  by (simp add: detect_button_handler_def)

lemma handler_detected:
  "strip (user_input g) \<noteq> [] \<Longrightarrow> vectorizer g [user_input g] = Inr tv \<Longrightarrow>
   model g tv = Inr p \<Longrightarrow> labels p = lang # rest \<Longrightarrow>
   detect_button_handler g =
     (g\<lparr>text_vector := Some tv, predicted_language := Some lang,
        reply := Some (dict_get (responses g) lang fallback)\<rparr>,
      [vectorizer_transform [user_input g], model_predict tv] @
      detected_ui lang (dict_get (responses g) lang fallback))"
  by (simp add: detect_button_handler_def Let_def)

lemma handler_keeps_responses:
  "responses (fst (detect_button_handler g)) = responses g"
  by (simp add: detect_button_handler_def Let_def split: sum.splits list.splits)

lemma globals_at_logic_sel [simp]:
  "model (globals_at_logic m v text) = m"
  "vectorizer (globals_at_logic m v text) = v"
  "responses (globals_at_logic m v text) = responses_literal"
  "user_input (globals_at_logic m v text) = text"
  by (simp_all add: globals_at_logic_def)

lemma script_loaded:
  "script fs (Some (m, v)) b text =
     (Some (m, v), snd (logic_execution b (globals_at_logic m v text)))"
  by (simp add: script_def cached_load_resources_def)

lemma script_cold:
  "script fs None b text =
     (case load_resources fs of
        Inl evs \<Rightarrow> (None, evs)
      | Inr (m, v) \<Rightarrow> (Some (m, v), snd (logic_execution b (globals_at_logic m v text))))"
  by (simp add: script_def cached_load_resources_def split: sum.splits)

lemma cached_load_resources_Inr:
  "cached_load_resources fs c = (c', Inr r) \<Longrightarrow> c' = Some r"
  by (auto simp: cached_load_resources_def split: option.splits sum.splits)

lemma load_resources_Inr_iff:
  "load_resources fs = Inr (m, v) \<longleftrightarrow>
     language_model_pkl fs = Inr m \<and> vectorizer_pkl fs = Inr v"
  by (auto simp: load_resources_def split: sum.splits)

lemma load_resources_Inl:
  "language_model_pkl fs = Inl e \<or> (\<exists>m. language_model_pkl fs = Inr m \<and> vectorizer_pkl fs = Inl e)
   \<Longrightarrow> load_resources fs = Inl [st_error (load_error e), st_stop]"
  by (auto simp: load_resources_def)

lemmas sample_defs =
  row_count_vectorizer_def code_point_count_vectorizer_def constant_model_def raising_model_def
  bonjour_def not_found_def ascii_def strip_def isspace_def

lemmas ui_defs = empty_ui_def detected_ui_def failure_ui_def fallback_def

section \<open>The reply\<close>

text \<open>
  C1. For a text that is not blank, when the vectorizer and the model return and the model's
  first label is \<open>lang\<close>: if \<open>lang\<close> is a key of the reply table, the reply the handler binds and
  shows is the table's value for exactly that key; if it is not a key, the reply is the fixed
  fallback string. Keys are compared as sequences of code points, with no case folding.
\<close>

theorem reply_is_table_value_or_fallback:
  assumes "strip t \<noteq> []" and "v [t] = Inr tv"
    and "m tv = Inr p" and "labels p = lang # rest"
  shows "(\<forall>r. map_of responses_literal lang = Some r \<longrightarrow>
            reply (fst (detect_button_handler (globals_at_logic m v t))) = Some r \<and>
            snd (detect_button_handler (globals_at_logic m v t)) =
              [vectorizer_transform [t], model_predict tv] @ detected_ui lang r) \<and>
         (map_of responses_literal lang = None \<longrightarrow>
            reply (fst (detect_button_handler (globals_at_logic m v t))) =
              Some (ascii ''Sorry, I don'' @ [0x27] @
                    ascii ''t have a canned response for this language yet.'') \<and>
            snd (detect_button_handler (globals_at_logic m v t)) =
              [vectorizer_transform [t], model_predict tv] @
              detected_ui lang
                (ascii ''Sorry, I don'' @ [0x27] @
                 ascii ''t have a canned response for this language yet.''))"
  using assms handler_detected [of "globals_at_logic m v t" tv p lang rest]
  by (simp add: dict_get_def fallback_def)

theorem reply_is_table_value_or_fallback_witness:
  "(strip bonjour \<noteq> [] \<and> row_count_vectorizer [bonjour] = Inr 1 \<and>
    constant_model (ascii ''French'') 1 =
      Inr (Prediction [ascii ''French'']
             (OtherException (ascii ''index 0 is out of bounds for axis 0 with size 0''))) \<and>
    map_of responses_literal (ascii ''French'') =
      Some (ascii ''Bonjour ! Comment puis-je vous aider ?'') \<and>
    snd (detect_button_handler
          (globals_at_logic (constant_model (ascii ''French'')) row_count_vectorizer bonjour)) =
      [vectorizer_transform [bonjour], model_predict 1,
       st_success ([0x2714, 0xFE0F] @ ascii '' Language Detected: *French*''),
       st_markdown (ascii ''### '' @ [0x1F916] @ ascii '' Chatbot Reply''),
       st_info (ascii ''Bonjour ! Comment puis-je vous aider ?'')]) \<and>
   (strip (ascii ''Xyzzy plugh'') \<noteq> [] \<and>
    row_count_vectorizer [ascii ''Xyzzy plugh''] = Inr 1 \<and>
    constant_model (ascii ''Klingon'') 1 =
      Inr (Prediction [ascii ''Klingon'']
             (OtherException (ascii ''index 0 is out of bounds for axis 0 with size 0''))) \<and>
    map_of responses_literal (ascii ''Klingon'') = None \<and>
    snd (detect_button_handler
          (globals_at_logic (constant_model (ascii ''Klingon'')) row_count_vectorizer
             (ascii ''Xyzzy plugh''))) =
      [vectorizer_transform [ascii ''Xyzzy plugh''], model_predict 1,
       st_success ([0x2714, 0xFE0F] @ ascii '' Language Detected: *Klingon*''),
       st_markdown (ascii ''### '' @ [0x1F916] @ ascii '' Chatbot Reply''),
       st_info (ascii ''Sorry, I don'' @ [0x27] @
                ascii ''t have a canned response for this language yet.'')])"
proof -
  have a1: "strip bonjour \<noteq> []" by (simp add: sample_defs)
  have a2: "row_count_vectorizer [bonjour] = Inr 1" by (simp add: sample_defs)
  have a3: "constant_model (ascii ''French'') 1 =
              Inr (Prediction [ascii ''French'']
                     (OtherException (ascii ''index 0 is out of bounds for axis 0 with size 0'')))"
    by (simp add: constant_model_def)
  have a3': "labels (Prediction [ascii ''French'']
                     (OtherException (ascii ''index 0 is out of bounds for axis 0 with size 0''))) =
             ascii ''French'' # []"
    by simp
  have a4: "map_of responses_literal (ascii ''French'') =
              Some (ascii ''Bonjour ! Comment puis-je vous aider ?'')"
    by (simp add: responses_literal_def ascii_def)
  have b1: "strip (ascii ''Xyzzy plugh'') \<noteq> []" by (simp add: sample_defs)
  have b2: "row_count_vectorizer [ascii ''Xyzzy plugh''] = Inr 1" by (simp add: sample_defs)
  have b3: "constant_model (ascii ''Klingon'') 1 =
              Inr (Prediction [ascii ''Klingon'']
                     (OtherException (ascii ''index 0 is out of bounds for axis 0 with size 0'')))"
    by (simp add: constant_model_def)
  have b3': "labels (Prediction [ascii ''Klingon'']
                     (OtherException (ascii ''index 0 is out of bounds for axis 0 with size 0''))) =
             ascii ''Klingon'' # []"
    by simp
  have b4: "map_of responses_literal (ascii ''Klingon'') = None"
    by (simp add: responses_literal_def ascii_def)
  from reply_is_table_value_or_fallback
         [where m = "constant_model (ascii ''French'')" and v = row_count_vectorizer
            and t = bonjour and tv = 1 and lang = "ascii ''French''" and rest = "[]",
          OF a1 a2 a3 a3'] a4
  have A: "snd (detect_button_handler
          (globals_at_logic (constant_model (ascii ''French'')) row_count_vectorizer bonjour)) =
      [vectorizer_transform [bonjour], model_predict 1] @
      detected_ui (ascii ''French'') (ascii ''Bonjour ! Comment puis-je vous aider ?'')"
    by blast
  from reply_is_table_value_or_fallback
         [where m = "constant_model (ascii ''Klingon'')" and v = row_count_vectorizer
            and t = "ascii ''Xyzzy plugh''" and tv = 1 and lang = "ascii ''Klingon''"
            and rest = "[]",
          OF b1 b2 b3 b3'] b4
  have B: "snd (detect_button_handler
          (globals_at_logic (constant_model (ascii ''Klingon'')) row_count_vectorizer
             (ascii ''Xyzzy plugh''))) =
      [vectorizer_transform [ascii ''Xyzzy plugh''], model_predict 1] @
      detected_ui (ascii ''Klingon'')
        (ascii ''Sorry, I don'' @ [0x27] @
         ascii ''t have a canned response for this language yet.'')"
    by blast
  show ?thesis
    using a1 a2 a3 a4 b1 b2 b3 b4 A B by (simp add: detected_ui_def ascii_def)
qed

text \<open>
  C2. For a text that is empty once leading and trailing whitespace is removed, the handler
  shows the warning "Please enter some text in the message box above." and nothing else, it
  changes no variable, and its trace holds no call of the vectorizer's \<open>transform\<close> or of the
  model's \<open>predict\<close>.
\<close>

theorem blank_input_warns_without_calls:
  assumes "strip t = []"
  shows "detect_button_handler (globals_at_logic m v t) =
           (globals_at_logic m v t,
            [st_warning (ascii ''Please enter some text in the message box above.'')]) \<and>
         filter is_call (snd (detect_button_handler (globals_at_logic m v t))) = []"
  using assms handler_empty [of "globals_at_logic m v t"]
  by (simp add: empty_ui_def)

theorem blank_input_warns_without_calls_witness:
  "strip (ascii ''   '') = [] \<and>
   snd (detect_button_handler
         (globals_at_logic (constant_model (ascii ''French'')) row_count_vectorizer
            (ascii ''   ''))) =
     [st_warning (ascii ''Please enter some text in the message box above.'')]"
proof -
  have h: "strip (ascii ''   '') = []" by (simp add: sample_defs)
  show ?thesis
    using h blank_input_warns_without_calls
            [where m = "constant_model (ascii ''French'')" and v = row_count_vectorizer, OF h]
    by simp
qed

section \<open>Failures of the artifacts\<close>

text \<open>
  C3. For a text that is not blank, in a run whose resources are loaded: if the vectorizer's
  \<open>transform\<close> raises, or it returns and the model's \<open>predict\<close> raises, the run ends
  normally; after the calls made so far it shows one error element whose text is
  "An error occurred during prediction: " followed by the text of the exception, and never
  \<open>st_stop\<close>. The failing request leaves the resource cache as loading left it, so a later
  request gives what it would have given had the failing request not been made.
\<close>

theorem prediction_error_is_reported:
  assumes "cached_load_resources fs c = (c', Inr (m, v))"
    and "strip t \<noteq> []"
    and "v [t] = Inl e \<or> (\<exists>tv. v [t] = Inr tv \<and> m tv = Inl e)"
  shows "(\<exists>calls. list_all is_call calls \<and>
            script fs c True t =
              (c', calls @
                   [st_error (ascii ''An error occurred during prediction: '' @ str_exc e)])) \<and>
         c' = Some (m, v) \<and>
         script fs' (fst (script fs c True t)) b t' = script fs' c' b t'"
proof -
  have run: "script fs c True t =
               (c', snd (detect_button_handler (globals_at_logic m v t)))"
    using assms(1) by (simp add: script_def logic_execution_def)
  have c': "c' = Some (m, v)"
    using assms(1) by (rule cached_load_resources_Inr)
  from assms(3) show ?thesis
  proof
    assume "v [t] = Inl e"
    with assms(2) have "detect_button_handler (globals_at_logic m v t) =
        (globals_at_logic m v t, [vectorizer_transform [t]] @ failure_ui e)"
      using handler_transform_raises [of "globals_at_logic m v t" e] by simp
    with run have "list_all is_call [vectorizer_transform [t] :: 'a event] \<and>
        script fs c True t =
          (c', [vectorizer_transform [t]] @
               [st_error (ascii ''An error occurred during prediction: '' @ str_exc e)])"
      by (simp add: failure_ui_def)
    then show ?thesis using c' run by (metis fst_conv)
  next
    assume "\<exists>tv. v [t] = Inr tv \<and> m tv = Inl e"
    then obtain tv where tv: "v [t] = Inr tv" "m tv = Inl e" by blast
    with assms(2) have "detect_button_handler (globals_at_logic m v t) =
        ((globals_at_logic m v t)\<lparr>text_vector := Some tv\<rparr>,
         [vectorizer_transform [t], model_predict tv] @ failure_ui e)"
      using handler_predict_raises [of "globals_at_logic m v t" tv e] by simp
    with run have "list_all is_call [vectorizer_transform [t], model_predict tv] \<and>
        script fs c True t =
          (c', [vectorizer_transform [t], model_predict tv] @
               [st_error (ascii ''An error occurred during prediction: '' @ str_exc e)])"
      by (simp add: failure_ui_def)
    then show ?thesis using c' run by (metis fst_conv)
  qed
qed

theorem prediction_error_is_reported_witness:
  "cached_load_resources
     \<lparr>language_model_pkl = Inr raising_model, vectorizer_pkl = Inr row_count_vectorizer\<rparr> None =
     (Some (raising_model, row_count_vectorizer), Inr (raising_model, row_count_vectorizer)) \<and>
   strip (ascii ''???'') \<noteq> [] \<and>
   row_count_vectorizer [ascii ''???''] = Inr 1 \<and>
   raising_model 1 =
     Inl (OtherException (ascii ''X has 1 features, but the model is expecting 2'')) \<and>
   script \<lparr>language_model_pkl = Inr raising_model, vectorizer_pkl = Inr row_count_vectorizer\<rparr>
     None True (ascii ''???'') =
     (Some (raising_model, row_count_vectorizer),
      [vectorizer_transform [ascii ''???''], model_predict 1,
       st_error (ascii ''An error occurred during prediction: X has 1 features, but the model is expecting 2'')]) \<and>
   script \<lparr>language_model_pkl = Inl (not_found ''language_model.pkl''),
           vectorizer_pkl = Inl (not_found ''vectorizer.pkl'')\<rparr>
     (fst (script
            \<lparr>language_model_pkl = Inr raising_model, vectorizer_pkl = Inr row_count_vectorizer\<rparr>
            None True (ascii ''???''))) True (ascii ''   '') =
     (Some (raising_model, row_count_vectorizer),
      [st_warning (ascii ''Please enter some text in the message box above.'')])"
proof -
  let ?fs = "\<lparr>language_model_pkl = Inr raising_model,
              vectorizer_pkl = Inr row_count_vectorizer\<rparr>"
  let ?gone = "\<lparr>language_model_pkl = Inl (not_found ''language_model.pkl'') :: pyexc + nat model_t,
                vectorizer_pkl = Inl (not_found ''vectorizer.pkl'')\<rparr>"
  let ?e = "OtherException (ascii ''X has 1 features, but the model is expecting 2'')"
  have h1: "cached_load_resources ?fs None =
              (Some (raising_model, row_count_vectorizer),
               Inr (raising_model, row_count_vectorizer))"
    by (simp add: cached_load_resources_def load_resources_def)
  have h2: "strip (ascii ''???'') \<noteq> []" by (simp add: sample_defs)
  have h3: "row_count_vectorizer [ascii ''???''] = Inr 1" by (simp add: sample_defs)
  have h4: "raising_model 1 = Inl ?e" by (simp add: raising_model_def)
  have h5: "row_count_vectorizer [ascii ''???''] = Inl ?e \<or>
            (\<exists>tv. row_count_vectorizer [ascii ''???''] = Inr tv \<and> raising_model tv = Inl ?e)"
    using h3 h4 by blast
  have next_run: "script ?gone (Some (raising_model, row_count_vectorizer)) True (ascii ''   '') =
      (Some (raising_model, row_count_vectorizer),
       [st_warning (ascii ''Please enter some text in the message box above.'')])"
    by (simp add: script_loaded logic_execution_def detect_button_handler_def empty_ui_def
                  sample_defs)
  have first_run: "script ?fs None True (ascii ''???'') =
     (Some (raising_model, row_count_vectorizer),
      [vectorizer_transform [ascii ''???''], model_predict 1,
       st_error (ascii ''An error occurred during prediction: X has 1 features, but the model is expecting 2'')])"
    using h2 h3 h4
    by (simp add: script_cold load_resources_def logic_execution_def detect_button_handler_def
                  failure_ui_def ascii_def)
  from prediction_error_is_reported
         [where fs = ?fs and c = None and c' = "Some (raising_model, row_count_vectorizer)"
            and m = raising_model and v = row_count_vectorizer and t = "ascii ''???''"
            and e = ?e and fs' = ?gone and b = True and t' = "ascii ''   ''",
          OF h1 h2 h5]
  have "script ?gone (fst (script ?fs None True (ascii ''???''))) True (ascii ''   '') =
        script ?gone (Some (raising_model, row_count_vectorizer)) True (ascii ''   '')"
    by blast
  with h1 h2 h3 h4 first_run next_run show ?thesis by simp
qed

text \<open>
  C4. For a text that is not blank the handler always returns, and what it shows is either
  the three elements of a detection (the label, the heading, the reply) or the single error
  element of a failure; an exception raised by the vectorizer, by the model or by indexing
  the prediction is caught, so the trace never ends the run with \<open>st_stop\<close>.
\<close>

theorem nonblank_input_detected_or_failure:
  assumes "strip t \<noteq> []"
  shows "((\<exists>lang r. filter (\<lambda>x. \<not> is_call x)
                      (snd (detect_button_handler (globals_at_logic m v t))) =
                    [st_success ([0x2714, 0xFE0F] @ ascii '' Language Detected: *'' @ lang @
                                 ascii ''*''),
                     st_markdown (ascii ''### '' @ [0x1F916] @ ascii '' Chatbot Reply''),
                     st_info r]) \<or>
          (\<exists>e. filter (\<lambda>x. \<not> is_call x)
                  (snd (detect_button_handler (globals_at_logic m v t))) =
                [st_error (ascii ''An error occurred during prediction: '' @ str_exc e)])) \<and>
         st_stop \<notin> set (snd (detect_button_handler (globals_at_logic m v t)))"
proof (cases "v [t]")
  case (Inl e)
  with assms have "detect_button_handler (globals_at_logic m v t) =
      (globals_at_logic m v t, [vectorizer_transform [t]] @ failure_ui e)"
    using handler_transform_raises [of "globals_at_logic m v t" e] by simp
  then show ?thesis by (auto simp: failure_ui_def)
next
  case (Inr tv)
  show ?thesis
  proof (cases "m tv")
    case (Inl e)
    with assms Inr have "detect_button_handler (globals_at_logic m v t) =
        ((globals_at_logic m v t)\<lparr>text_vector := Some tv\<rparr>,
         [vectorizer_transform [t], model_predict tv] @ failure_ui e)"
      using handler_predict_raises [of "globals_at_logic m v t" tv e] by simp
    then show ?thesis by (auto simp: failure_ui_def)
  next
    case pred: (Inr p)
    show ?thesis
    proof (cases "labels p")
      case Nil
      with assms Inr pred have "detect_button_handler (globals_at_logic m v t) =
          ((globals_at_logic m v t)\<lparr>text_vector := Some tv\<rparr>,
           [vectorizer_transform [t], model_predict tv] @ failure_ui (index_error p))"
        using handler_predict_nothing [of "globals_at_logic m v t" tv p] by simp
      then show ?thesis by (auto simp: failure_ui_def)
    next
      case (Cons lang rest)
      with assms Inr pred have "snd (detect_button_handler (globals_at_logic m v t)) =
           [vectorizer_transform [t], model_predict tv] @
           detected_ui lang (dict_get responses_literal lang fallback)"
        using handler_detected [of "globals_at_logic m v t" tv p lang rest] by simp
      then show ?thesis by (auto simp: detected_ui_def)
    qed
  qed
qed

theorem nonblank_input_detected_or_failure_witness:
  "strip bonjour \<noteq> [] \<and>
   filter (\<lambda>x. \<not> is_call x)
     (snd (detect_button_handler
            (globals_at_logic (constant_model (ascii ''French'')) row_count_vectorizer bonjour))) =
     [st_success ([0x2714, 0xFE0F] @ ascii '' Language Detected: *French*''),
      st_markdown (ascii ''### '' @ [0x1F916] @ ascii '' Chatbot Reply''),
      st_info (ascii ''Bonjour ! Comment puis-je vous aider ?'')] \<and>
   st_stop \<notin> set (snd (detect_button_handler
            (globals_at_logic (constant_model (ascii ''French'')) row_count_vectorizer bonjour)))"
proof -
  have h: "strip bonjour \<noteq> []" by (simp add: sample_defs)
  have run: "snd (detect_button_handler
            (globals_at_logic (constant_model (ascii ''French'')) row_count_vectorizer bonjour)) =
     [vectorizer_transform [bonjour], model_predict 1,
      st_success ([0x2714, 0xFE0F] @ ascii '' Language Detected: *French*''),
      st_markdown (ascii ''### '' @ [0x1F916] @ ascii '' Chatbot Reply''),
      st_info (ascii ''Bonjour ! Comment puis-je vous aider ?'')]"
    using h
    by (simp add: detect_button_handler_def row_count_vectorizer_def constant_model_def Let_def
                  detected_ui_def dict_get_def responses_literal_def fallback_def ascii_def)
  from nonblank_input_detected_or_failure
         [where m = "constant_model (ascii ''French'')" and v = row_count_vectorizer
            and t = bonjour, OF h]
  have "st_stop \<notin> set (snd (detect_button_handler
            (globals_at_logic (constant_model (ascii ''French'')) row_count_vectorizer bonjour)))"
    by blast
  with h run show ?thesis by simp
qed

section \<open>What the artifacts are called with\<close>

text \<open>
  C7. For a text that is not blank whose vectorization returns, the vectorizer is called once,
  with the batch holding that one text, and the model is called once, with what the
  vectorizer returned for that batch. When the model returns a non-empty prediction, the label
  bound to \<open>predicted_language\<close>, shown as detected and looked up in the reply table is its
  element at index 0.
\<close>

theorem model_gets_one_row_and_first_label_is_used:
  assumes "strip t \<noteq> []" and "v [t] = Inr tv"
  shows "filter is_call (snd (detect_button_handler (globals_at_logic m v t))) =
           [vectorizer_transform [t], model_predict tv] \<and>
         (\<forall>p. m tv = Inr p \<and> labels p \<noteq> [] \<longrightarrow>
            predicted_language (fst (detect_button_handler (globals_at_logic m v t))) =
              Some (labels p ! 0) \<and>
            snd (detect_button_handler (globals_at_logic m v t)) =
              [vectorizer_transform [t], model_predict tv] @
              detected_ui (labels p ! 0) (dict_get responses_literal (labels p ! 0) fallback))"
proof (cases "m tv")
  case (Inl e)
  with assms have "detect_button_handler (globals_at_logic m v t) =
      ((globals_at_logic m v t)\<lparr>text_vector := Some tv\<rparr>,
       [vectorizer_transform [t], model_predict tv] @ failure_ui e)"
    using handler_predict_raises [of "globals_at_logic m v t" tv e] by simp
  with Inl show ?thesis by (simp add: failure_ui_def)
next
  case pred: (Inr p)
  show ?thesis
  proof (cases "labels p")
    case Nil
    with assms pred have "detect_button_handler (globals_at_logic m v t) =
        ((globals_at_logic m v t)\<lparr>text_vector := Some tv\<rparr>,
         [vectorizer_transform [t], model_predict tv] @ failure_ui (index_error p))"
      using handler_predict_nothing [of "globals_at_logic m v t" tv p] by simp
    with Nil pred show ?thesis by (simp add: failure_ui_def)
  next
    case (Cons lang rest)
    with assms pred have "detect_button_handler (globals_at_logic m v t) =
        ((globals_at_logic m v t)
           \<lparr>text_vector := Some tv, predicted_language := Some lang,
            reply := Some (dict_get responses_literal lang fallback)\<rparr>,
         [vectorizer_transform [t], model_predict tv] @
         detected_ui lang (dict_get responses_literal lang fallback))"
      using handler_detected [of "globals_at_logic m v t" tv p lang rest] by simp
    with Cons pred show ?thesis by (simp add: detected_ui_def)
  qed
qed

theorem model_gets_one_row_and_first_label_is_used_witness:
  "strip bonjour \<noteq> [] \<and> row_count_vectorizer [bonjour] = Inr 1 \<and>
   constant_model (ascii ''French'') 1 =
     Inr (Prediction [ascii ''French'']
            (OtherException (ascii ''index 0 is out of bounds for axis 0 with size 0''))) \<and>
   labels (Prediction [ascii ''French'']
            (OtherException (ascii ''index 0 is out of bounds for axis 0 with size 0''))) \<noteq> [] \<and>
   filter is_call
     (snd (detect_button_handler
            (globals_at_logic (constant_model (ascii ''French'')) row_count_vectorizer bonjour))) =
     [vectorizer_transform [bonjour], model_predict 1] \<and>
   predicted_language
     (fst (detect_button_handler
            (globals_at_logic (constant_model (ascii ''French'')) row_count_vectorizer bonjour))) =
     Some (ascii ''French'')"
proof -
  have h1: "strip bonjour \<noteq> []" by (simp add: sample_defs)
  have h2: "row_count_vectorizer [bonjour] = Inr 1" by (simp add: sample_defs)
  have h3: "constant_model (ascii ''French'') 1 =
              Inr (Prediction [ascii ''French'']
                     (OtherException (ascii ''index 0 is out of bounds for axis 0 with size 0'')))"
    by (simp add: constant_model_def)
  from model_gets_one_row_and_first_label_is_used
         [where m = "constant_model (ascii ''French'')" and v = row_count_vectorizer
            and t = bonjour and tv = 1, OF h1 h2] h3
  show ?thesis using h1 h2 by (simp add: detected_ui_def)
qed

text \<open>
  C10. For a text that is not blank, the vectorizer's \<open>transform\<close> is applied once, to the
  batch holding the text as it was entered, leading and trailing whitespace included, and
  what that application gives is what is classified: if it returns, its result is bound to
  \<open>text_vector\<close> and is the argument of the model's \<open>predict\<close>; if it raises, its exception is
  the one reported. The stripped text is used for the test of blankness only.
\<close>

theorem vectorizer_gets_untrimmed_text:
  assumes "strip t \<noteq> []"
  shows "filter is_transform (snd (detect_button_handler (globals_at_logic m v t))) =
           [vectorizer_transform [t]] \<and>
         (\<forall>tv. v [t] = Inr tv \<longrightarrow>
            text_vector (fst (detect_button_handler (globals_at_logic m v t))) = Some tv \<and>
            filter is_call (snd (detect_button_handler (globals_at_logic m v t))) =
              [vectorizer_transform [t], model_predict tv]) \<and>
         (\<forall>e. v [t] = Inl e \<longrightarrow>
            detect_button_handler (globals_at_logic m v t) =
              (globals_at_logic m v t,
               [vectorizer_transform [t],
                st_error (ascii ''An error occurred during prediction: '' @ str_exc e)]))"
proof (cases "v [t]")
  case (Inl e)
  with assms have "detect_button_handler (globals_at_logic m v t) =
      (globals_at_logic m v t, [vectorizer_transform [t]] @ failure_ui e)"
    using handler_transform_raises [of "globals_at_logic m v t" e] by simp
  with Inl show ?thesis by (simp add: failure_ui_def)
next
  case (Inr tv)
  with assms show ?thesis
    by (simp add: detect_button_handler_def Let_def ui_defs split: sum.splits list.splits)
qed

theorem vectorizer_gets_untrimmed_text_witness:
  "strip (ascii ''  hola '') \<noteq> [] \<and>
   strip (ascii ''  hola '') = ascii ''hola'' \<and>
   code_point_count_vectorizer [ascii ''  hola ''] = Inr 7 \<and>
   code_point_count_vectorizer [strip (ascii ''  hola '')] = Inr 4 \<and>
   text_vector
     (fst (detect_button_handler
            (globals_at_logic (constant_model (ascii ''Spanish'')) code_point_count_vectorizer
               (ascii ''  hola '')))) = Some 7 \<and>
   filter is_call
     (snd (detect_button_handler
            (globals_at_logic (constant_model (ascii ''Spanish'')) code_point_count_vectorizer
               (ascii ''  hola '')))) =
     [vectorizer_transform [ascii ''  hola ''], model_predict 7]"
proof -
  have h: "strip (ascii ''  hola '') \<noteq> []" by (simp add: sample_defs)
  have d: "strip (ascii ''  hola '') = ascii ''hola''" by (simp add: sample_defs)
  have a: "code_point_count_vectorizer [ascii ''  hola ''] = Inr 7"
    by (simp add: code_point_count_vectorizer_def ascii_def)
  have b: "code_point_count_vectorizer [strip (ascii ''  hola '')] = Inr 4"
    by (simp add: d) (simp add: code_point_count_vectorizer_def ascii_def)
  from vectorizer_gets_untrimmed_text
         [where m = "constant_model (ascii ''Spanish'')" and v = code_point_count_vectorizer
            and t = "ascii ''  hola ''", OF h] a
  have "text_vector
     (fst (detect_button_handler
            (globals_at_logic (constant_model (ascii ''Spanish'')) code_point_count_vectorizer
               (ascii ''  hola '')))) = Some 7 \<and>
   filter is_call
     (snd (detect_button_handler
            (globals_at_logic (constant_model (ascii ''Spanish'')) code_point_count_vectorizer
               (ascii ''  hola '')))) =
     [vectorizer_transform [ascii ''  hola ''], model_predict 7]"
    by blast
  with h d a b show ?thesis by blast
qed

section \<open>Loading\<close>

text \<open>
  C5, as amended. If loading the model raises, or the model loads and loading the vectorizer
  raises, the run shows one error element and stops: nothing is cached and no call of an
  artifact is made. For a missing file the text is the fixed sentence that names both files,
  so the diagnostic is the same whichever of the two files is missing; for any other
  exception it is "Error loading resources:" followed by the text of the exception.
\<close>

theorem load_failure_stops_with_diagnostic:
  assumes "language_model_pkl fs = Inl e \<or>
           (\<exists>m. language_model_pkl fs = Inr m \<and> vectorizer_pkl fs = Inl e)"
  shows "script fs None b t = (None, [st_error (load_error e), st_stop]) \<and>
         load_error e =
           (case e of
              FileNotFoundError _ \<Rightarrow>
                [0x1F6A8] @ ascii '' *Error:* Model or Vectorizer file not found. Please ensure language_model.pkl and vectorizer.pkl are in the correct directory.''
            | OtherException s \<Rightarrow> [0x1F6A8] @ ascii '' *Error loading resources:* '' @ s) \<and>
         (\<forall>fs' s s'.
            e = FileNotFoundError s \<and>
            (language_model_pkl fs' = Inl (FileNotFoundError s') \<or>
             (\<exists>m. language_model_pkl fs' = Inr m \<and>
                  vectorizer_pkl fs' = Inl (FileNotFoundError s'))) \<longrightarrow>
            script fs' None b t = script fs None b t)"
proof -
  have stop: "script fs0 None b t = (None, [st_error (load_error e0), st_stop])"
    if "language_model_pkl fs0 = Inl e0 \<or>
        (\<exists>m. language_model_pkl fs0 = Inr m \<and> vectorizer_pkl fs0 = Inl e0)"
    for fs0 :: "'a files" and e0
  proof -
    have "load_resources fs0 = Inl [st_error (load_error e0), st_stop]"
      using that by (rule load_resources_Inl)
    then show ?thesis by (simp add: script_cold)
  qed
  have here: "script fs None b t = (None, [st_error (load_error e), st_stop])"
    using assms by (rule stop)
  have shown: "load_error e =
           (case e of
              FileNotFoundError _ \<Rightarrow>
                [0x1F6A8] @ ascii '' *Error:* Model or Vectorizer file not found. Please ensure language_model.pkl and vectorizer.pkl are in the correct directory.''
            | OtherException s \<Rightarrow> [0x1F6A8] @ ascii '' *Error loading resources:* '' @ s)"
    by (cases e) simp_all
  have same: "script fs' None b t = script fs None b t"
    if "e = FileNotFoundError s"
      and "language_model_pkl fs' = Inl (FileNotFoundError s') \<or>
           (\<exists>m. language_model_pkl fs' = Inr m \<and>
                vectorizer_pkl fs' = Inl (FileNotFoundError s'))"
    for fs' :: "'a files" and s s'
  proof -
    have "script fs' None b t = (None, [st_error (load_error (FileNotFoundError s')), st_stop])"
      using that(2) by (rule stop)
    with here that(1) show ?thesis by simp
  qed
  from here shown same show ?thesis by blast
qed

theorem load_failure_stops_with_diagnostic_witness:
  "language_model_pkl
     \<lparr>language_model_pkl = Inl (not_found ''language_model.pkl''),
      vectorizer_pkl = Inr row_count_vectorizer\<rparr> =
     Inl (not_found ''language_model.pkl'') \<and>
   not_found ''language_model.pkl'' =
     FileNotFoundError
       (ascii ''[Errno 2] No such file or directory: '' @ [0x27] @
        ascii ''language_model.pkl'' @ [0x27]) \<and>
   (\<exists>m. language_model_pkl
          \<lparr>language_model_pkl = Inr (constant_model (ascii ''French'')),
           vectorizer_pkl = Inl (not_found ''vectorizer.pkl'')\<rparr> = Inr m \<and>
        vectorizer_pkl
          \<lparr>language_model_pkl = Inr (constant_model (ascii ''French'')),
           vectorizer_pkl = Inl (not_found ''vectorizer.pkl'')\<rparr> =
          Inl (FileNotFoundError
                 (ascii ''[Errno 2] No such file or directory: '' @ [0x27] @
                  ascii ''vectorizer.pkl'' @ [0x27]))) \<and>
   script
     \<lparr>language_model_pkl = Inl (not_found ''language_model.pkl''),
      vectorizer_pkl = Inr row_count_vectorizer\<rparr>
     None True bonjour =
     (None,
      [st_error ([0x1F6A8] @ ascii '' *Error:* Model or Vectorizer file not found. Please ensure language_model.pkl and vectorizer.pkl are in the correct directory.''),
       st_stop]) \<and>
   script
     \<lparr>language_model_pkl = Inr (constant_model (ascii ''French'')),
      vectorizer_pkl = Inl (not_found ''vectorizer.pkl'')\<rparr>
     None True bonjour =
   script
     \<lparr>language_model_pkl = Inl (not_found ''language_model.pkl''),
      vectorizer_pkl = Inr row_count_vectorizer\<rparr>
     None True bonjour"
proof -
  let ?A = "\<lparr>language_model_pkl = Inl (not_found ''language_model.pkl''),
             vectorizer_pkl = Inr row_count_vectorizer\<rparr>"
  let ?B = "\<lparr>language_model_pkl = Inr (constant_model (ascii ''French'')),
             vectorizer_pkl = Inl (not_found ''vectorizer.pkl'')\<rparr>"
  let ?s = "ascii ''[Errno 2] No such file or directory: '' @ [0x27] @
            ascii ''language_model.pkl'' @ [0x27]"
  let ?s' = "ascii ''[Errno 2] No such file or directory: '' @ [0x27] @
             ascii ''vectorizer.pkl'' @ [0x27]"
  have h: "language_model_pkl ?A = Inl (not_found ''language_model.pkl'') \<or>
           (\<exists>m. language_model_pkl ?A = Inr m \<and>
                vectorizer_pkl ?A = Inl (not_found ''language_model.pkl''))"
    by simp
  have e: "not_found ''language_model.pkl'' = FileNotFoundError ?s"
    by (simp add: not_found_def)
  have hB: "\<exists>m. language_model_pkl ?B = Inr m \<and> vectorizer_pkl ?B = Inl (FileNotFoundError ?s')"
    by (simp add: not_found_def)
  note T = load_failure_stops_with_diagnostic
             [where fs = ?A and e = "not_found ''language_model.pkl''" and b = True
                and t = bonjour, OF h]
  from T have run: "script ?A None True bonjour =
      (None, [st_error (load_error (not_found ''language_model.pkl'')), st_stop])"
    by blast
  from T have shown: "load_error (not_found ''language_model.pkl'') =
           (case not_found ''language_model.pkl'' of
              FileNotFoundError _ \<Rightarrow>
                [0x1F6A8] @ ascii '' *Error:* Model or Vectorizer file not found. Please ensure language_model.pkl and vectorizer.pkl are in the correct directory.''
            | OtherException s \<Rightarrow> [0x1F6A8] @ ascii '' *Error loading resources:* '' @ s)"
    by blast
  from T e hB have same: "script ?B None True bonjour = script ?A None True bonjour"
    by blast
  have A: "script ?A None True bonjour =
     (None, [st_error ([0x1F6A8] @ ascii '' *Error:* Model or Vectorizer file not found. Please ensure language_model.pkl and vectorizer.pkl are in the correct directory.''), st_stop])"
    using run shown by (simp add: e)
  show ?thesis
    using e hB A same by simp
qed

text \<open>
  The claim C5 as the specification states it fails: the diagnostic for a missing model file
  and the diagnostic for a missing vectorizer file are the same text, so it does not tell
  which of the two artifacts failed.
\<close>

theorem missing_file_diagnostic_same_for_both_artifacts:
  "load_resources
     \<lparr>language_model_pkl = Inl (not_found ''language_model.pkl''),
      vectorizer_pkl = Inr row_count_vectorizer\<rparr> =
     Inl [st_error ([0x1F6A8] @ ascii '' *Error:* Model or Vectorizer file not found. Please ensure language_model.pkl and vectorizer.pkl are in the correct directory.''),
          st_stop] \<and>
   load_resources
     \<lparr>language_model_pkl = Inr (constant_model (ascii ''French'')),
      vectorizer_pkl = Inl (not_found ''vectorizer.pkl'')\<rparr> =
     Inl [st_error ([0x1F6A8] @ ascii '' *Error:* Model or Vectorizer file not found. Please ensure language_model.pkl and vectorizer.pkl are in the correct directory.''),
          st_stop]"
  by (simp add: load_resources_def not_found_def)

text \<open>
  C9. \<open>load_resources\<close> returns a pair exactly when both files load, and the pair is the two
  loaded objects; otherwise the run shows an error and stops, also when the model has loaded
  and only the vectorizer fails. A run that starts with nothing cached calls an artifact only
  if both files loaded.
\<close>

theorem load_resources_all_or_nothing:
  "(load_resources fs = Inr (m, v) \<longleftrightarrow>
      language_model_pkl fs = Inr m \<and> vectorizer_pkl fs = Inr v) \<and>
   ((\<exists>m' v'. load_resources fs = Inr (m', v')) \<or>
    (\<exists>msg. script fs None b t = (None, [st_error msg, st_stop]))) \<and>
   ((\<exists>x \<in> set (snd (script fs None b t)). is_call x) \<longrightarrow>
      (\<exists>m' v'. language_model_pkl fs = Inr m' \<and> vectorizer_pkl fs = Inr v'))"
proof (cases "load_resources fs")
  case (Inl evs)
  then obtain msg where evs: "evs = [st_error msg, st_stop]"
    by (auto simp: load_resources_def split: sum.splits)
  with Inl have "script fs None b t = (None, [st_error msg, st_stop])"
    by (simp add: script_cold)
  with Inl show ?thesis
    using load_resources_Inr_iff [of fs m v] by auto
next
  case (Inr r)
  obtain m' v' where r: "r = (m', v')" by (cases r)
  with Inr have "language_model_pkl fs = Inr m' \<and> vectorizer_pkl fs = Inr v'"
    using load_resources_Inr_iff [of fs m' v'] by simp
  with Inr r show ?thesis
    using load_resources_Inr_iff [of fs m v] by auto
qed

theorem load_resources_all_or_nothing_witness:
  "(\<exists>x \<in> set (snd (script
       \<lparr>language_model_pkl = Inr (constant_model (ascii ''French'')),
        vectorizer_pkl = Inr row_count_vectorizer\<rparr> None True bonjour)). is_call x) \<and>
   (\<exists>m' v'. language_model_pkl
       \<lparr>language_model_pkl = Inr (constant_model (ascii ''French'')),
        vectorizer_pkl = Inr row_count_vectorizer\<rparr> = Inr m' \<and>
      vectorizer_pkl
       \<lparr>language_model_pkl = Inr (constant_model (ascii ''French'')),
        vectorizer_pkl = Inr row_count_vectorizer\<rparr> = Inr v')"
proof -
  let ?fs = "\<lparr>language_model_pkl = Inr (constant_model (ascii ''French'')),
              vectorizer_pkl = Inr row_count_vectorizer\<rparr>"
  have "snd (script ?fs None True bonjour) =
     [vectorizer_transform [bonjour], model_predict 1] @
      detected_ui (ascii ''French'') (dict_get responses_literal (ascii ''French'') fallback)"
    by (simp add: script_cold load_resources_def logic_execution_def detect_button_handler_def
                  Let_def sample_defs)
  then have h: "\<exists>x \<in> set (snd (script ?fs None True bonjour)). is_call x"
    by simp
  with load_resources_all_or_nothing [where fs = ?fs and b = True and t = bonjour]
  show ?thesis by blast
qed

section \<open>Runs of the script\<close>

text \<open>
  C6. With the artifacts being functions of their argument: running the script again on the
  same text, from the state the first run left, gives the same state and the same trace as
  the first run. Once the resources are cached, a request's trace is the handler's trace on
  the text, the cached artifacts and the reply table; it does not depend on the files.
\<close>

theorem same_text_same_outcome:
  "script fs (fst (script fs c b t)) b t = script fs c b t \<and>
   script fs (Some (m, v)) True t =
     (Some (m, v), snd (detect_button_handler (globals_at_logic m v t))) \<and>
   script fs' (Some (m, v)) b t = script fs (Some (m, v)) b t"
proof -
  have "script fs (fst (script fs c b t)) b t = script fs c b t"
  proof (cases c)
    case None
    show ?thesis
    proof (cases "load_resources fs")
      case (Inl evs)
      with None show ?thesis by (simp add: script_cold)
    next
      case (Inr r)
      obtain m' v' where "r = (m', v')" by (cases r)
      with None Inr show ?thesis by (simp add: script_cold script_loaded)
    qed
  next
    case (Some r)
    obtain m' v' where "r = (m', v')" by (cases r)
    with Some show ?thesis by (simp add: script_loaded)
  qed
  then show ?thesis by (simp add: script_loaded logic_execution_def)
qed

section \<open>The reply table is read only\<close>

text \<open>
  C8. The reply table is the dictionary literal of 22 pairs with 22 distinct keys. Every run
  binds \<open>responses\<close> to it before the logic block, and the logic block, whichever branch it
  takes, leaves \<open>responses\<close> as it found it.
\<close>

theorem responses_has_22_entries_and_is_never_changed:
  "length responses_literal = 22 \<and> distinct (map fst responses_literal) \<and>
   card (dom (map_of responses_literal)) = 22 \<and>
   responses (globals_at_logic m v t) = responses_literal \<and>
   responses (fst (logic_execution b g)) = responses g"
proof -
  have len: "length responses_literal = 22" by (simp add: responses_literal_def)
  have dist: "distinct (map fst responses_literal)"
    by (simp add: responses_literal_def ascii_def)
  have "card (dom (map_of responses_literal)) = card (set (map fst responses_literal))"
    by (simp add: dom_map_of_conv_image_fst)
  also have "\<dots> = length (map fst responses_literal)"
    using dist by (rule distinct_card)
  finally have card: "card (dom (map_of responses_literal)) = 22" using len by simp
  have "responses (fst (logic_execution b g)) = responses g"
    by (simp add: logic_execution_def handler_keeps_responses)
  with len dist card show ?thesis by simp
qed

end
